theory Spec2Isabelle
  imports Complex_Main "HOL-Library.Char_ord" "HOL-Library.List_Lexorder" "HOL-Library.Log_Nat"
begin

section \<open>Data model of analisis.py\<close>

text \<open>
  The script reads \<^verbatim>\<open>ventas.csv\<close> into a pandas DataFrame, derives a revenue column,
  aggregates it per month and per product, and writes two charts and a text report.

  Modelling decisions, all of them about the library the script calls:
  \<^item> A float64 value is \<open>NaN\<close> or a finite number \<open>Val x\<close>. Products and sums are rounded
    to the nearest float64, ties to even (\<open>redondear\<close>). The infinities are not values of
    the model: prices \<^verbatim>\<open>inf\<close> and results beyond the float64 range are outside it.
  \<^item> An int64 value is an \<open>int\<close>; the sums of quantities wrap around as int64 sums do
    (\<open>wrap64\<close>).
  \<^item> A parsed date is a \<open>timestamp\<close> (year, month, day); missing dates (NaT) and date
    columns that pandas leaves unparsed are outside the model.
  \<^item> A product label is a string, or \<open>None\<close> for an empty cell (pandas reads it as NaN).
\<close>

datatype f64 = NaN | Val real

record timestamp =
  anio :: int
  mes :: nat
  dia :: nat

subsection \<open>float64 and int64 arithmetic\<close>

text \<open>
  Rounding to the nearest float64, ties to even: 53 significant bits, the exponent of
  the subnormal numbers below \<open>2 ^ - 1022\<close>. \<open>exponente x\<close> is the integer part of the
  binary logarithm of \<open>\<bar>x\<bar>\<close>. A result of magnitude \<open>2 ^ 1024\<close> or more is infinite in
  float64 and has no value here.
\<close>

definition dos_a :: "int \<Rightarrow> real" where
  "dos_a e = (if 0 \<le> e then 2 ^ nat e else 1 / 2 ^ nat (- e))"

definition mitad_par :: "real \<Rightarrow> int" where
  "mitad_par y =
     (let f = \<lfloor>y\<rfloor>; r = y - of_int f
      in if r < 1 / 2 then f else if 1 / 2 < r then f + 1 else if even f then f else f + 1)"

definition exponente :: "real \<Rightarrow> int" where
  "exponente x =
     (if 1 \<le> \<bar>x\<bar> then bitlen \<lfloor>\<bar>x\<bar>\<rfloor> - 1
      else (let b = bitlen \<lfloor>1 / \<bar>x\<bar>\<rfloor>
            in if \<bar>x\<bar> * 2 ^ nat (b - 1) = 1 then - (b - 1) else - b))"

definition redondear :: "real \<Rightarrow> real" where
  "redondear x =
     (if x = 0 then 0
      else (let e = max (exponente x) (- 1022) - 52
            in sgn x * of_int (mitad_par (\<bar>x\<bar> / dos_a e)) * dos_a e))"

text \<open>An int64 sum keeps the low 64 bits, read as a signed number.\<close>

definition wrap64 :: "int \<Rightarrow> int" where
  "wrap64 n = (n + 2 ^ 63) mod 2 ^ 64 - 2 ^ 63"

subsection \<open>Files and tables\<close>

text \<open>
  A cell of the \<^verbatim>\<open>cantidad\<close> or \<^verbatim>\<open>precio\<close> column, by what \<^verbatim>\<open>pd.to_numeric\<close> with
  \<^verbatim>\<open>errors="coerce"\<close> makes of it: an empty cell; a text it cannot read as a number; a
  cell of a column of \<^verbatim>\<open>True\<close> and \<^verbatim>\<open>False\<close>; a number, given by the value written in
  the cell. A quantity cell can also be infinite (\<^verbatim>\<open>inf\<close>, \<^verbatim>\<open>-inf\<close>, \<^verbatim>\<open>Infinity\<close>); an
  infinite price has no value in \<open>f64\<close> and is not a cell of the model.
\<close>

datatype celda = Vacia | Texto string | Booleano bool | Numero real

datatype celda_cantidad = Finita celda | Infinita

text \<open>One data line of the file: the cells under the four required headers.\<close>

record fila_csv =
  fecha_csv :: timestamp
  producto_csv :: "string option"
  cantidad_csv :: celda_cantidad
  precio_csv :: celda

text \<open>
  A column name is a list of Unicode code points. The input path: no such file, a file
  \<^verbatim>\<open>pd.read_csv\<close> cannot parse, or a header line (the raw column names, which
  \<^verbatim>\<open>pd.read_csv\<close> makes distinct) with the data lines.
\<close>

type_synonym texto = "nat list"

datatype archivo = NoExiste | Ilegible | Csv "texto list" "fila_csv list"

text \<open>A row of the loaded table (the DataFrame \<^verbatim>\<open>cargar_csv\<close> returns).\<close>

record venta =
  fecha :: timestamp
  producto :: "string option"
  cantidad :: int
  precio :: f64

text \<open>
  \<^verbatim>\<open>sys.exit(n)\<close> raises SystemExit; an empty series or a NaN where an integer is needed
  raises ValueError. \<open>SinObjeto\<close> stands for a reference to no object, which Python
  cannot produce: it makes the functions on the store total.
\<close>

datatype error = SystemExit nat | ValueError | TypeError | SinObjeto

section \<open>cargar_csv\<close>

subsection \<open>Normalising the column names\<close>

text \<open>
  The Unicode tables behind \<^verbatim>\<open>str.strip\<close>, \<^verbatim>\<open>str.lower\<close> and the regular expression
  \<^verbatim>\<open>\w\<close> are parameters: which code points are white space, the lower-case form of a
  text, and which code points are word characters.
\<close>

record unicode =
  es_espacio :: "nat \<Rightarrow> bool"
  minusculas :: "texto \<Rightarrow> texto"
  es_palabra :: "nat \<Rightarrow> bool"

definition codigos :: "string \<Rightarrow> texto" where
  "codigos s = map of_char s"

definition strip :: "unicode \<Rightarrow> texto \<Rightarrow> texto" where
  "strip u s = rev (dropWhile (es_espacio u) (rev (dropWhile (es_espacio u) s)))"

text \<open>
  \<^verbatim>\<open>.str.strip().str.lower().str.replace(" ", "_").str.replace(r"[^\w_]", "", regex=True)\<close>:
  32 is the space and 95 the underscore.
\<close>

definition normalizar :: "unicode \<Rightarrow> texto \<Rightarrow> texto" where
  "normalizar u s =
     filter (\<lambda>c. es_palabra u c \<or> c = 95)
       (map (\<lambda>c. if c = 32 then 95 else c) (minusculas u (strip u s)))"

definition requeridas :: "texto list" where
  "requeridas = map codigos [''fecha'', ''producto'', ''cantidad'', ''precio'']"

text \<open>\<^verbatim>\<open>faltantes = requeridas - set(df.columns)\<close>, after the renaming.\<close>

definition faltantes :: "unicode \<Rightarrow> texto list \<Rightarrow> texto list" where
  "faltantes u cols = filter (\<lambda>c. c \<notin> set (map (normalizar u) cols)) requeridas"

text \<open>
  The renaming can give two columns the same name; \<^verbatim>\<open>df[c]\<close> is then a table of both
  columns and not a series.
\<close>

definition repetida :: "unicode \<Rightarrow> texto list \<Rightarrow> texto \<Rightarrow> bool" where
  "repetida u cols c = (1 < count_list (map (normalizar u) cols) c)"

subsection \<open>Coercing the numeric columns\<close>

text \<open>
  \<^verbatim>\<open>pd.to_numeric(..., errors="coerce")\<close>: what is not a number becomes NaN, \<^verbatim>\<open>True\<close> and
  \<^verbatim>\<open>False\<close> count as 1 and 0, and a number is read as the float64 nearest to it.
\<close>

fun to_numeric :: "celda \<Rightarrow> f64" where
  "to_numeric Vacia = NaN"
| "to_numeric (Texto s) = NaN"
| "to_numeric (Booleano b) = Val (if b then 1 else 0)"
| "to_numeric (Numero x) = Val (redondear x)"

text \<open>\<^verbatim>\<open>.fillna(0)\<close>\<close>

fun fillna0 :: "f64 \<Rightarrow> f64" where
  "fillna0 NaN = Val 0"
| "fillna0 (Val x) = Val x"

text \<open>
  \<^verbatim>\<open>.astype(int)\<close>: a float is cut towards zero; a float beyond the int64 range becomes
  \<open>- 2 ^ 63\<close>, which is what the conversion gives on x86-64; a NaN makes pandas raise
  IntCastingNaNError, a ValueError.
\<close>

fun astype_int :: "f64 \<Rightarrow> error + int" where
  "astype_int NaN = Inl ValueError"
| "astype_int (Val x) =
     Inr (let n = (if 0 \<le> x then \<lfloor>x\<rfloor> else \<lceil>x\<rceil>)
          in if - (2 ^ 63) \<le> n \<and> n < 2 ^ 63 then n else - (2 ^ 63))"

text \<open>
  Line 46 on one cell. An infinite value is left as it is by \<^verbatim>\<open>fillna\<close>, and \<^verbatim>\<open>astype\<close>
  raises IntCastingNaNError on it as well.
\<close>

fun cantidad_entera :: "celda_cantidad \<Rightarrow> error + int" where
  "cantidad_entera Infinita = Inl ValueError"
| "cantidad_entera (Finita c) = astype_int (fillna0 (to_numeric c))"

text \<open>Line 46 on the column: the first cell that cannot be converted raises.\<close>

fun cantidades :: "fila_csv list \<Rightarrow> error + int list" where
  "cantidades [] = Inr []"
| "cantidades (f # fs) =
     (case cantidad_entera (cantidad_csv f) of
        Inl e \<Rightarrow> Inl e
      | Inr q \<Rightarrow> (case cantidades fs of Inl e \<Rightarrow> Inl e | Inr qs \<Rightarrow> Inr (q # qs)))"

definition fila_cargada :: "fila_csv \<Rightarrow> int \<Rightarrow> venta" where
  "fila_cargada f q =
     \<lparr>fecha = fecha_csv f, producto = producto_csv f, cantidad = q,
      precio = to_numeric (precio_csv f)\<rparr>"

text \<open>
  \<^verbatim>\<open>cargar_csv\<close>. \<^verbatim>\<open>pd.read_csv(csv_path, parse_dates=["fecha"])\<close> raises when the raw
  header has no column named exactly \<^verbatim>\<open>fecha\<close>; the \<^verbatim>\<open>except\<close> branch exits with 1.
  \<^verbatim>\<open>pd.to_numeric\<close> raises TypeError when it is given two columns.
\<close>

definition cargar_csv :: "unicode \<Rightarrow> archivo \<Rightarrow> error + venta list" where
  "cargar_csv u a =
     (case a of
        NoExiste \<Rightarrow> Inl (SystemExit 1)
      | Ilegible \<Rightarrow> Inl (SystemExit 1)
      | Csv cols lineas \<Rightarrow>
          if codigos ''fecha'' \<notin> set cols then Inl (SystemExit 1)
          else if faltantes u cols \<noteq> [] then Inl (SystemExit 1)
          else if repetida u cols (codigos ''cantidad'') then Inl TypeError
          else (case cantidades lineas of
                  Inl e \<Rightarrow> Inl e
                | Inr qs \<Rightarrow>
                    if repetida u cols (codigos ''precio'') then Inl TypeError
                    else Inr (map2 fila_cargada lineas qs)))"

section \<open>calcular_metricas\<close>

subsection \<open>DataFrames as objects\<close>

text \<open>
  A DataFrame is an object that \<^verbatim>\<open>df["ingreso"] = ...\<close> changes in place, so the tables
  live in a store and the functions pass references. \<open>ingreso\<close> is \<open>None\<close> while the
  table has no such column.
\<close>

record dataframe =
  filas :: "venta list"
  ingreso :: "f64 list option"

record memoria =
  objetos :: "nat \<Rightarrow> dataframe option"
  siguiente :: nat

definition alojar :: "memoria \<Rightarrow> dataframe \<Rightarrow> nat \<times> memoria" where
  "alojar h d =
     (siguiente h, h\<lparr>objetos := (objetos h)(siguiente h \<mapsto> d), siguiente := Suc (siguiente h)\<rparr>)"

text \<open>\<^verbatim>\<open>df.copy()\<close>: a new object with the same cells.\<close>

definition df_copy :: "memoria \<Rightarrow> nat \<Rightarrow> error + nat \<times> memoria" where
  "df_copy h r = (case objetos h r of None \<Rightarrow> Inl SinObjeto | Some d \<Rightarrow> Inr (alojar h d))"

text \<open>
  int64 times float64, elementwise: the quantity is converted to float64 and the product
  is rounded; NaN stays NaN.
\<close>

fun mul_f64 :: "int \<Rightarrow> f64 \<Rightarrow> f64" where
  "mul_f64 q NaN = NaN"
| "mul_f64 q (Val p) = Val (redondear (redondear (of_int q) * p))"

text \<open>\<^verbatim>\<open>df["ingreso"] = df["cantidad"] * df["precio"]\<close>, on the object \<open>r\<close>.\<close>

definition set_ingreso :: "memoria \<Rightarrow> nat \<Rightarrow> error + memoria" where
  "set_ingreso h r =
     (case objetos h r of
        None \<Rightarrow> Inl SinObjeto
      | Some d \<Rightarrow>
          Inr (h\<lparr>objetos := (objetos h)
                 (r \<mapsto> d\<lparr>ingreso := Some (map (\<lambda>v. mul_f64 (cantidad v) (precio v)) (filas d))\<rparr>)\<rparr>))"

subsection \<open>Sums\<close>

text \<open>
  \<^verbatim>\<open>.sum()\<close> of a float series, of a group and of a resampling bin alike: pandas skips
  NaN (\<^verbatim>\<open>skipna=True\<close>) and starts from 0 (\<^verbatim>\<open>min_count=0\<close>). The values are added from
  first to last, each partial sum rounded; the compensated and the pairwise summation
  that pandas and numpy use on longer series are not modelled.
\<close>

fun nansum :: "real \<Rightarrow> f64 list \<Rightarrow> real" where
  "nansum acc [] = acc"
| "nansum acc (NaN # vs) = nansum acc vs"
| "nansum acc (Val x # vs) = nansum (redondear (acc + x)) vs"

definition suma_f64 :: "f64 list \<Rightarrow> f64" where
  "suma_f64 vs = Val (nansum 0 vs)"

subsection \<open>Monthly revenue\<close>

text \<open>
  \<^verbatim>\<open>df.set_index("fecha").resample("ME")["ingreso"].sum()\<close>. The bins are the calendar
  months from the earliest date's to the latest date's, those without a row included;
  each is labelled by its month end, written here as the pair (year, month). An empty
  table gives an empty series.
\<close>

definition mes_ord :: "timestamp \<Rightarrow> int" where
  "mes_ord d = 12 * anio d + int (mes d) - 1"

definition etiqueta :: "int \<Rightarrow> int \<times> nat" where
  "etiqueta k = (k div 12, nat (k mod 12) + 1)"

fun rango_meses :: "int list \<Rightarrow> int list" where
  "rango_meses [] = []"
| "rango_meses (k # ks) = [fold min ks k .. fold max ks k]"

definition resample_ME_sum :: "(timestamp \<times> f64) list \<Rightarrow> ((int \<times> nat) \<times> f64) list" where
  "resample_ME_sum s =
     map (\<lambda>k. (etiqueta k, suma_f64 (map snd (filter (\<lambda>dv. mes_ord (fst dv) = k) s))))
       (rango_meses (map (\<lambda>dv. mes_ord (fst dv)) s))"

subsection \<open>Rankings per product\<close>

text \<open>
  \<^verbatim>\<open>df.groupby("producto")\<close>: one group per label, in ascending order of the labels;
  rows without a label are left out (\<^verbatim>\<open>dropna=True\<close>).
\<close>

definition claves :: "(string option \<times> 'v) list \<Rightarrow> string list" where
  "claves s = sort (remdups (map (\<lambda>kv. the (fst kv)) (filter (\<lambda>kv. fst kv \<noteq> None) s)))"

definition grupo :: "string \<Rightarrow> (string option \<times> 'v) list \<Rightarrow> 'v list" where
  "grupo p s = map snd (filter (\<lambda>kv. fst kv = Some p) s)"

definition groupby_sum :: "(string option \<times> int) list \<Rightarrow> (string \<times> int) list" where
  "groupby_sum s = map (\<lambda>p. (p, wrap64 (sum_list (grupo p s)))) (claves s)"

definition groupby_sum_f64 :: "(string option \<times> f64) list \<Rightarrow> (string \<times> f64) list" where
  "groupby_sum_f64 s = map (\<lambda>p. (p, suma_f64 (grupo p s))) (claves s)"

text \<open>
  \<^verbatim>\<open>.sort_values(ascending=False)\<close>: pandas reverses the series, sorts it ascending and
  reverses the result; NaN values go last. The order among equal values depends on the
  sorting algorithm; the stable one is taken here, and no theorem below relies on it.
\<close>

definition sort_values_desc :: "('k \<times> 'v::linorder) list \<Rightarrow> ('k \<times> 'v) list" where
  "sort_values_desc s = rev (sort_key snd (rev s))"

fun finitos :: "('k \<times> f64) list \<Rightarrow> ('k \<times> real) list" where
  "finitos [] = []"
| "finitos ((k, NaN) # s) = finitos s"
| "finitos ((k, Val x) # s) = (k, x) # finitos s"

definition sort_values_desc_f64 :: "('k \<times> f64) list \<Rightarrow> ('k \<times> f64) list" where
  "sort_values_desc_f64 s =
     map (\<lambda>kx. (fst kx, Val (snd kx))) (sort_values_desc (finitos s)) @
     filter (\<lambda>kv. snd kv = NaN) s"

subsection \<open>The top lookups\<close>

text \<open>
  \<^verbatim>\<open>.idxmax()\<close> is the label of the first largest value and raises ValueError on an empty
  series; \<^verbatim>\<open>.max()\<close> of an empty series is NaN, on which \<^verbatim>\<open>int(...)\<close> raises ValueError.
  On a float series both skip NaN.
\<close>

fun primero_max :: "'k \<times> 'v::linorder \<Rightarrow> ('k \<times> 'v) list \<Rightarrow> 'k \<times> 'v" where
  "primero_max b [] = b"
| "primero_max b (kv # s) = primero_max (if snd b < snd kv then kv else b) s"

fun idxmax :: "('k \<times> 'v::linorder) list \<Rightarrow> error + 'k" where
  "idxmax [] = Inl ValueError"
| "idxmax (kv # s) = Inr (fst (primero_max kv s))"

fun int_max :: "('k \<times> int) list \<Rightarrow> error + int" where
  "int_max [] = Inl ValueError"
| "int_max (kv # s) = Inr (fold max (map snd s) (snd kv))"

definition idxmax_f64 :: "('k \<times> f64) list \<Rightarrow> error + 'k" where
  "idxmax_f64 s = idxmax (finitos s)"

definition float_max :: "('k \<times> f64) list \<Rightarrow> f64" where
  "float_max s = (case finitos s of [] \<Rightarrow> NaN | kx # r \<Rightarrow> Val (fold max (map snd r) (snd kx)))"

subsection \<open>The function\<close>

record metricas =
  df :: nat
  ventas_mensuales :: "((int \<times> nat) \<times> f64) list"
  cant_por_producto :: "(string \<times> int) list"
  ingresos_por_producto :: "(string \<times> f64) list"
  producto_mas_vendido :: string
  cantidad_max :: int
  producto_top_ingresos :: string
  ingresos_max :: f64

text \<open>
  Lines 57 to 91, on the rows \<open>t\<close> of the copy \<open>r\<close> and its revenue column \<open>ing\<close>. A table
  without rows has no parsed dates: its \<^verbatim>\<open>fecha\<close> column is not a datetime column and
  \<^verbatim>\<open>resample\<close> raises TypeError.
\<close>

definition agregar :: "nat \<Rightarrow> venta list \<Rightarrow> f64 list \<Rightarrow> error + metricas" where
  "agregar r t ing =
     (if t = [] then Inl TypeError else
      let vm = resample_ME_sum (zip (map fecha t) ing);
          cpp = sort_values_desc (groupby_sum (zip (map producto t) (map cantidad t)));
          ipp = sort_values_desc_f64 (groupby_sum_f64 (zip (map producto t) ing))
      in case idxmax cpp of
           Inl e \<Rightarrow> Inl e
         | Inr pmv \<Rightarrow>
            (case int_max cpp of
               Inl e \<Rightarrow> Inl e
             | Inr cmax \<Rightarrow>
                (case idxmax_f64 ipp of
                   Inl e \<Rightarrow> Inl e
                 | Inr pti \<Rightarrow>
                     Inr \<lparr>df = r, ventas_mensuales = vm, cant_por_producto = cpp,
                          ingresos_por_producto = ipp, producto_mas_vendido = pmv,
                          cantidad_max = cmax, producto_top_ingresos = pti,
                          ingresos_max = float_max ipp\<rparr>)))"

text \<open>
  \<^verbatim>\<open>calcular_metricas(df)\<close> on the object \<open>r\<close> of the store \<open>h\<close>: the store afterwards, and
  the dictionary returned or the exception raised.
\<close>

definition calcular_metricas :: "memoria \<Rightarrow> nat \<Rightarrow> memoria \<times> (error + metricas)" where
  "calcular_metricas h r =
     (case df_copy h r of
        Inl e \<Rightarrow> (h, Inl e)
      | Inr (r', h1) \<Rightarrow>
         (case set_ingreso h1 r' of
            Inl e \<Rightarrow> (h1, Inl e)
          | Inr h2 \<Rightarrow>
             (case objetos h2 r' of
                None \<Rightarrow> (h2, Inl SinObjeto)
              | Some d \<Rightarrow>
                 (case ingreso d of
                    None \<Rightarrow> (h2, Inl SinObjeto)
                  | Some ing \<Rightarrow> (h2, agregar r' (filas d) ing)))))"

section \<open>main\<close>

text \<open>
  The process: its exit status and the files of the working directory afterwards. An
  exception that nothing catches ends the process with status 1.
\<close>

fun estado_salida :: "error \<Rightarrow> nat" where
  "estado_salida (SystemExit n) = n"
| "estado_salida ValueError = 1"
| "estado_salida TypeError = 1"
| "estado_salida SinObjeto = 1"

definition memoria_vacia :: memoria where
  "memoria_vacia = \<lparr>objetos = (\<lambda>r. None), siguiente = 0\<rparr>"

text \<open>What the three output functions do to the working directory: each writes its file.\<close>

definition graficar_ventas_por_mes ::
  "((int \<times> nat) \<times> f64) list \<Rightarrow> string \<Rightarrow> string set \<Rightarrow> string set" where
  "graficar_ventas_por_mes vm outfile fs = insert outfile fs"

definition graficar_top5_productos ::
  "(string \<times> f64) list \<Rightarrow> string \<Rightarrow> string set \<Rightarrow> string set" where
  "graficar_top5_productos ipp outfile fs = insert outfile fs"

definition exportar_informe :: "metricas \<Rightarrow> string \<Rightarrow> string set \<Rightarrow> string set" where
  "exportar_informe m outfile fs = insert outfile fs"

definition columnas :: "archivo \<Rightarrow> texto list" where
  "columnas a = (case a of Csv cols lineas \<Rightarrow> cols | _ \<Rightarrow> [])"

text \<open>
  \<^verbatim>\<open>main\<close>. When the renaming has given the name \<^verbatim>\<open>fecha\<close> or \<^verbatim>\<open>producto\<close> to two columns,
  \<^verbatim>\<open>set_index\<close> or \<^verbatim>\<open>groupby\<close> raises ValueError inside \<^verbatim>\<open>calcular_metricas\<close>, before any
  file is written.
\<close>

definition main :: "unicode \<Rightarrow> archivo \<Rightarrow> string set \<Rightarrow> nat \<times> string set" where
  "main u a fs =
     (case cargar_csv u a of
        Inl e \<Rightarrow> (estado_salida e, fs)
      | Inr t \<Rightarrow>
         if repetida u (columnas a) (codigos ''fecha'') \<or>
            repetida u (columnas a) (codigos ''producto'')
         then (estado_salida ValueError, fs)
         else
         (case alojar memoria_vacia \<lparr>filas = t, ingreso = None\<rparr> of
            (r, h) \<Rightarrow>
              (case snd (calcular_metricas h r) of
                 Inl e \<Rightarrow> (estado_salida e, fs)
               | Inr m \<Rightarrow>
                   (0, exportar_informe m ''informe.txt''
                         (graficar_top5_productos (ingresos_por_producto m)
                            ''ventas_top5_productos.png''
                            (graficar_ventas_por_mes (ventas_mensuales m)
                               ''ventas_por_mes.png'' fs))))))"

section \<open>Auxiliary notions and sample inputs\<close>

text \<open>What a value adds to a sum that skips NaN.\<close>

fun valor :: "f64 \<Rightarrow> real" where
  "valor NaN = 0"
| "valor (Val x) = x"

text \<open>
  The Unicode tables on ASCII: white space, the lower case of the letters A to Z, and the
  letters, digits and underscore as word characters. They are what Python uses on a
  header written in ASCII.
\<close>

definition unicode_ascii :: unicode where
  "unicode_ascii =
     \<lparr>es_espacio = (\<lambda>c. c \<in> set [9, 10, 11, 12, 13, 28, 29, 30, 31, 32]),
      minusculas = map (\<lambda>c. if 65 \<le> c \<and> c \<le> 90 then c + 32 else c),
      es_palabra = (\<lambda>c. (48 \<le> c \<and> c \<le> 57) \<or> (65 \<le> c \<and> c \<le> 90) \<or>
                         (97 \<le> c \<and> c \<le> 122) \<or> c = 95)\<rparr>"

text \<open>
  A file with padded and capitalised headers; its quantities are 3, a text, an empty
  cell and \<^verbatim>\<open>-2.5\<close>.
\<close>

definition lineas_ej :: "fila_csv list" where
  "lineas_ej =
     [\<lparr>fecha_csv = \<lparr>anio = 2024, mes = 1, dia = 5\<rparr>, producto_csv = Some ''A'',
       cantidad_csv = Finita (Numero 3), precio_csv = Numero 10\<rparr>,
      \<lparr>fecha_csv = \<lparr>anio = 2024, mes = 1, dia = 20\<rparr>, producto_csv = Some ''B'',
       cantidad_csv = Finita (Texto ''abc''), precio_csv = Numero 50\<rparr>,
      \<lparr>fecha_csv = \<lparr>anio = 2024, mes = 3, dia = 1\<rparr>, producto_csv = Some ''A'',
       cantidad_csv = Finita Vacia, precio_csv = Texto ''n/d''\<rparr>,
      \<lparr>fecha_csv = \<lparr>anio = 2024, mes = 3, dia = 2\<rparr>, producto_csv = Some ''B'',
       cantidad_csv = Finita (Numero (- 5 / 2)), precio_csv = Numero 4\<rparr>]"

definition archivo_ej :: archivo where
  "archivo_ej =
     Csv (map codigos [''fecha'', '' Producto '', ''CANTIDAD'', ''Precio'']) lineas_ej"

definition cargada_ej :: "venta list" where
  "cargada_ej =
     [\<lparr>fecha = \<lparr>anio = 2024, mes = 1, dia = 5\<rparr>, producto = Some ''A'',
       cantidad = 3, precio = Val 10\<rparr>,
      \<lparr>fecha = \<lparr>anio = 2024, mes = 1, dia = 20\<rparr>, producto = Some ''B'',
       cantidad = 0, precio = Val 50\<rparr>,
      \<lparr>fecha = \<lparr>anio = 2024, mes = 3, dia = 1\<rparr>, producto = Some ''A'',
       cantidad = 0, precio = NaN\<rparr>,
      \<lparr>fecha = \<lparr>anio = 2024, mes = 3, dia = 2\<rparr>, producto = Some ''B'',
       cantidad = - 2, precio = Val 4\<rparr>]"

text \<open>A file whose only quantity is \<^verbatim>\<open>-5\<close>.\<close>

definition archivo_neg :: archivo where
  "archivo_neg =
     Csv (map codigos [''fecha'', ''producto'', ''cantidad'', ''precio''])
       [\<lparr>fecha_csv = \<lparr>anio = 2024, mes = 1, dia = 5\<rparr>, producto_csv = Some ''A'',
         cantidad_csv = Finita (Numero (- 5)), precio_csv = Numero 10\<rparr>]"

text \<open>A file without the \<^verbatim>\<open>precio\<close> column.\<close>

definition archivo_sin_precio :: archivo where
  "archivo_sin_precio = Csv (map codigos [''fecha'', ''producto'', ''cantidad'']) lineas_ej"

text \<open>A file with the columns \<^verbatim>\<open>precio\<close> and \<^verbatim>\<open>Precio\<close>, and a file with a quantity \<^verbatim>\<open>inf\<close>.\<close>

definition archivo_repetido :: archivo where
  "archivo_repetido =
     Csv (map codigos [''fecha'', ''producto'', ''cantidad'', ''precio'', ''Precio'']) lineas_ej"

definition archivo_inf :: archivo where
  "archivo_inf =
     Csv (map codigos [''fecha'', ''producto'', ''cantidad'', ''precio''])
       [\<lparr>fecha_csv = \<lparr>anio = 2024, mes = 1, dia = 5\<rparr>, producto_csv = Some ''A'',
         cantidad_csv = Infinita, precio_csv = Numero 10\<rparr>]"

text \<open>
  A loaded table with sales in January and March 2024 and one undefined price, the store
  that holds it as object 0, and the dictionary \<^verbatim>\<open>calcular_metricas\<close> returns on it.
\<close>

definition tabla_ej :: "venta list" where
  "tabla_ej =
     [\<lparr>fecha = \<lparr>anio = 2024, mes = 1, dia = 5\<rparr>, producto = Some ''A'',
       cantidad = 3, precio = Val 10\<rparr>,
      \<lparr>fecha = \<lparr>anio = 2024, mes = 1, dia = 20\<rparr>, producto = Some ''B'',
       cantidad = 1, precio = Val 50\<rparr>,
      \<lparr>fecha = \<lparr>anio = 2024, mes = 3, dia = 1\<rparr>, producto = Some ''A'',
       cantidad = 2, precio = NaN\<rparr>]"

definition df_ej :: dataframe where
  "df_ej = \<lparr>filas = tabla_ej, ingreso = None\<rparr>"

definition mem_ej :: memoria where
  "mem_ej = snd (alojar memoria_vacia df_ej)"

definition metricas_ej :: metricas where
  "metricas_ej =
     \<lparr>df = 1,
      ventas_mensuales = [((2024, 1), Val 80), ((2024, 2), Val 0), ((2024, 3), Val 0)],
      cant_por_producto = [(''A'', 5), (''B'', 1)],
      ingresos_por_producto = [(''B'', Val 50), (''A'', Val 30)],
      producto_mas_vendido = ''A'', cantidad_max = 5,
      producto_top_ingresos = ''B'', ingresos_max = Val 50\<rparr>"

text \<open>A table whose first row has no price, in the month and product of a priced row.\<close>

definition df_nan :: dataframe where
  "df_nan =
     \<lparr>filas =
        [\<lparr>fecha = \<lparr>anio = 2024, mes = 1, dia = 5\<rparr>, producto = Some ''A'',
          cantidad = 3, precio = NaN\<rparr>,
         \<lparr>fecha = \<lparr>anio = 2024, mes = 1, dia = 20\<rparr>, producto = Some ''A'',
          cantidad = 1, precio = Val 50\<rparr>],
      ingreso = None\<rparr>"

definition mem_nan :: memoria where
  "mem_nan = snd (alojar memoria_vacia df_nan)"

definition metricas_nan :: metricas where
  "metricas_nan =
     \<lparr>df = 1,
      ventas_mensuales = [((2024, 1), Val 50)],
      cant_por_producto = [(''A'', 4)],
      ingresos_por_producto = [(''A'', Val 50)],
      producto_mas_vendido = ''A'', cantidad_max = 4,
      producto_top_ingresos = ''A'', ingresos_max = Val 50\<rparr>"

text \<open>A table of one row whose product cell is empty.\<close>

definition df_sin_producto :: dataframe where
  "df_sin_producto =
     \<lparr>filas =
        [\<lparr>fecha = \<lparr>anio = 2024, mes = 1, dia = 5\<rparr>, producto = None,
          cantidad = 3, precio = Val 10\<rparr>],
      ingreso = None\<rparr>"

definition mem_sin_producto :: memoria where
  "mem_sin_producto = snd (alojar memoria_vacia df_sin_producto)"

text \<open>A table in which every price is undefined.\<close>

definition df_todo_nan :: dataframe where
  "df_todo_nan =
     \<lparr>filas =
        [\<lparr>fecha = \<lparr>anio = 2024, mes = 1, dia = 5\<rparr>, producto = Some ''A'',
          cantidad = 3, precio = NaN\<rparr>,
         \<lparr>fecha = \<lparr>anio = 2024, mes = 2, dia = 7\<rparr>, producto = Some ''B'',
          cantidad = 1, precio = NaN\<rparr>],
      ingreso = None\<rparr>"

definition mem_todo_nan :: memoria where
  "mem_todo_nan = snd (alojar memoria_vacia df_todo_nan)"

text \<open>
  Whether the price column is certainly a float64 column: some price is missing or has a
  fractional part. A column of whole numbers can be an int64 column, on which the product
  and the sums are int64 operations.
\<close>

definition columna_flotante :: "venta list \<Rightarrow> bool" where
  "columna_flotante t =
     (\<exists>v\<in>set t. case precio v of NaN \<Rightarrow> True | Val p \<Rightarrow> of_int \<lfloor>p\<rfloor> \<noteq> p)"

text \<open>
  Three units at the price \<^verbatim>\<open>0.1\<close>, that is at the float64 nearest to one tenth.
\<close>

definition df_decimal :: dataframe where
  "df_decimal =
     \<lparr>filas =
        [\<lparr>fecha = \<lparr>anio = 2024, mes = 1, dia = 5\<rparr>, producto = Some ''A'',
          cantidad = 3, precio = Val (3602879701896397 / 36028797018963968)\<rparr>],
      ingreso = None\<rparr>"

definition mem_decimal :: memoria where
  "mem_decimal = snd (alojar memoria_vacia df_decimal)"




section \<open>Lemmas\<close>

subsection \<open>Rounding is exact on the whole numbers up to \<open>2 ^ 53\<close>\<close>

lemma dos_a_pos: "0 < dos_a e"
  by (simp add: dos_a_def)

lemma mitad_par_of_int: "mitad_par (of_int m) = m"
  by (simp add: mitad_par_def)

lemma redondear_fijo:
  assumes "\<bar>x\<bar> / dos_a (max (exponente x) (- 1022) - 52) = of_int m"
  shows "redondear x = x"
proof (cases "x = 0")
  case True
  then show ?thesis by (simp add: redondear_def)
next
  case False
  let ?e = "max (exponente x) (- 1022) - 52"
  have "redondear x = sgn x * of_int m * dos_a ?e"
    using False by (simp add: redondear_def Let_def assms mitad_par_of_int)
  also have "\<dots> = sgn x * (\<bar>x\<bar> / dos_a ?e * dos_a ?e)"
    by (simp only: assms[symmetric] mult.assoc)
  also have "\<dots> = sgn x * \<bar>x\<bar>" using dos_a_pos[of ?e] by simp
  also have "\<dots> = x" by (simp add: sgn_mult_abs)
  finally show ?thesis .
qed

lemma redondear_entero:
  assumes "\<bar>n\<bar> \<le> 2 ^ 53"
  shows "redondear (of_int n) = of_int n"
proof (cases "n = 0")
  case True
  then show ?thesis by (simp add: redondear_def)
next
  case False
  let ?a = "\<bar>n\<bar>"
  have a: "0 < ?a" using False by simp
  have ex: "exponente (of_int n) = bitlen ?a - 1"
  proof -
    have "(1::real) \<le> \<bar>of_int n\<bar>" using a by (metis of_int_abs of_int_1_le_iff zless_imp_add1_zle zero_less_abs_iff add_0 False)
    moreover have "\<lfloor>\<bar>of_int n :: real\<bar>\<rfloor> = ?a" by (metis of_int_abs floor_of_int)
    ultimately show ?thesis by (simp add: exponente_def)
  qed
  from bitlen_bounds[OF a] have lo: "2 ^ nat (bitlen ?a - 1) \<le> ?a" and hi: "?a < 2 ^ nat (bitlen ?a)"
    by simp_all
  have b1: "1 \<le> bitlen ?a" using a by (simp add: bitlen_alt_def)
  have b54: "bitlen ?a \<le> 54"
  proof (rule ccontr)
    assume "\<not> bitlen ?a \<le> 54"
    then have "54 \<le> bitlen ?a - 1" by simp
    then have "(2::int) ^ 54 \<le> 2 ^ nat (bitlen ?a - 1)"
      by (intro power_increasing) simp_all
    with lo assms show False by simp
  qed
  let ?E = "bitlen ?a - 1"
  have e: "max (exponente (of_int n)) (- 1022) - 52 = ?E - 52"
    using b1 by (simp add: ex)
  show ?thesis
  proof (cases "?E \<le> 52")
    case True
    let ?k = "nat (52 - ?E)"
    have d: "dos_a (?E - 52) = 1 / 2 ^ ?k"
    proof (cases "?E = 52")
      case True
      then show ?thesis by (simp add: dos_a_def)
    next
      case False
      with True have "?E - 52 < 0" by simp
      then show ?thesis by (simp add: dos_a_def)
    qed
    have "\<bar>of_int n :: real\<bar> / dos_a (?E - 52) = of_int (?a * 2 ^ ?k)"
      unfolding d by simp
    then show ?thesis by (intro redondear_fijo[where m = "?a * 2 ^ ?k"]) (simp only: e)
  next
    case False
    with b54 have E: "?E = 53" by simp
    then have "(2::int) ^ 53 \<le> ?a" using lo by simp
    with assms have a53: "?a = 2 ^ 53" by simp
    have d: "dos_a (?E - 52) = 2" by (simp add: E dos_a_def)
    have "\<bar>of_int n :: real\<bar> = of_int ?a" by simp
    then have r: "\<bar>of_int n :: real\<bar> = 2 ^ 53" by (simp only: a53) simp
    have "\<bar>of_int n :: real\<bar> / dos_a (?E - 52) = of_int (2 ^ 52)"
      by (simp only: d r) simp
    then show ?thesis by (intro redondear_fijo[where m = "2 ^ 52"]) (simp only: e)
  qed
qed

subsection \<open>Unfolding calcular_metricas\<close>

lemma calcular_metricas_Some:
  "objetos h r = Some d \<Longrightarrow>
   calcular_metricas h r =
     (h\<lparr>objetos := (objetos h)(siguiente h \<mapsto>
           d\<lparr>ingreso := Some (map (\<lambda>v. mul_f64 (cantidad v) (precio v)) (filas d))\<rparr>),
        siguiente := Suc (siguiente h)\<rparr>,
      agregar (siguiente h) (filas d) (map (\<lambda>v. mul_f64 (cantidad v) (precio v)) (filas d)))"
  by (simp add: calcular_metricas_def df_copy_def alojar_def set_ingreso_def)

lemma calcular_metricas_None:
  "objetos h r = None \<Longrightarrow> calcular_metricas h r = (h, Inl SinObjeto)"
  by (simp add: calcular_metricas_def df_copy_def)

lemma snd_calcular_metricas:
  "objetos h r = Some d \<Longrightarrow>
   snd (calcular_metricas h r) =
     agregar (siguiente h) (filas d) (map (\<lambda>v. mul_f64 (cantidad v) (precio v)) (filas d))"
  by (simp add: calcular_metricas_Some)

lemma objetos_calcular_metricas:
  "objetos h r = Some d \<Longrightarrow>
   objetos (fst (calcular_metricas h r)) =
     (objetos h)(siguiente h \<mapsto>
        d\<lparr>ingreso := Some (map (\<lambda>v. mul_f64 (cantidad v) (precio v)) (filas d))\<rparr>)"
  by (simp add: calcular_metricas_Some)

lemma mul_f64_case:
  "mul_f64 q p =
     (case p of NaN \<Rightarrow> NaN | Val x \<Rightarrow> Val (redondear (redondear (of_int q) * x)))"
  by (cases p) simp_all

lemma agregar_Inr:
  assumes "agregar r t ing = Inr m"
  shows "df m = r"
    and "ventas_mensuales m = resample_ME_sum (zip (map fecha t) ing)"
    and "cant_por_producto m = sort_values_desc (groupby_sum (zip (map producto t) (map cantidad t)))"
    and "ingresos_por_producto m = sort_values_desc_f64 (groupby_sum_f64 (zip (map producto t) ing))"
    and "idxmax (cant_por_producto m) = Inr (producto_mas_vendido m)"
    and "int_max (cant_por_producto m) = Inr (cantidad_max m)"
    and "idxmax_f64 (ingresos_por_producto m) = Inr (producto_top_ingresos m)"
    and "ingresos_max m = float_max (ingresos_por_producto m)"
    and "t \<noteq> []"
  using assms by (auto simp: agregar_def Let_def split: sum.splits if_splits)

subsection \<open>Sums that skip NaN\<close>




lemma sum_list_filter_zero:
  "(\<And>x. \<not> Q x \<Longrightarrow> h x = (0::real)) \<Longrightarrow>
   sum_list (map h (filter P xs)) = sum_list (map h (filter (\<lambda>x. P x \<and> Q x) xs))"
  by (induction xs) auto

lemma zip_map_same: "zip (map f t) (map g t) = map (\<lambda>v. (f v, g v)) t"
  by (induction t) simp_all

lemma grupo_zip:
  "grupo p (zip (map producto t) (map g t)) = map g (filter (\<lambda>v. producto v = Some p) t)"
  by (simp add: grupo_def zip_map_same filter_map comp_def)

lemma bin_zip:
  "map snd (filter (\<lambda>dv. mes_ord (fst dv) = k) (zip (map fecha t) (map g t))) =
   map g (filter (\<lambda>v. mes_ord (fecha v) = k) t)"
  by (simp add: zip_map_same filter_map comp_def)

subsection \<open>The months of the resampling\<close>

lemma fold_min_Min: "fold min ks (k::int) = Min (set (k # ks))"
  by (simp only: Min.set_eq_fold)

lemma fold_max_Max: "fold max ks (k::int) = Max (set (k # ks))"
  by (simp only: Max.set_eq_fold)

lemma set_rango_meses:
  assumes "ks \<noteq> []"
  shows "set (rango_meses ks) = {Min (set ks) .. Max (set ks)}"
proof -
  from assms obtain k ks' where ks: "ks = k # ks'" by (cases ks) auto
  have "set (rango_meses ks) = {fold min ks' k .. fold max ks' k}"
    by (simp add: ks)
  also have "\<dots> = {Min (set ks) .. Max (set ks)}"
    by (simp only: ks fold_min_Min fold_max_Max)
  finally show ?thesis .
qed

lemma rango_meses_covers: "k \<in> set ks \<Longrightarrow> k \<in> set (rango_meses ks)"
proof -
  assume k: "k \<in> set ks"
  then have ne: "ks \<noteq> []" by auto
  have "Min (set ks) \<le> k" "k \<le> Max (set ks)" using k by simp_all
  then show ?thesis by (simp add: set_rango_meses[OF ne])
qed

lemma rango_meses_iff:
  "k \<in> set (rango_meses ks) \<longleftrightarrow> (\<exists>a\<in>set ks. \<exists>b\<in>set ks. a \<le> k \<and> k \<le> b)"
proof (cases "ks = []")
  case True
  then show ?thesis by simp
next
  case False
  have fin: "finite (set ks)" and ne: "set ks \<noteq> {}" using False by simp_all
  show ?thesis
  proof
    assume "k \<in> set (rango_meses ks)"
    then have "Min (set ks) \<le> k" "k \<le> Max (set ks)"
      by (simp_all add: set_rango_meses[OF False])
    moreover have "Min (set ks) \<in> set ks" "Max (set ks) \<in> set ks"
      using fin ne by (simp_all add: Min_in Max_in del: set_empty)
    ultimately show "\<exists>a\<in>set ks. \<exists>b\<in>set ks. a \<le> k \<and> k \<le> b" by blast
  next
    assume "\<exists>a\<in>set ks. \<exists>b\<in>set ks. a \<le> k \<and> k \<le> b"
    then obtain a b where ab: "a \<in> set ks" "b \<in> set ks" "a \<le> k" "k \<le> b" by blast
    have "Min (set ks) \<le> a" "b \<le> Max (set ks)" using ab fin by simp_all
    with ab have "Min (set ks) \<le> k" "k \<le> Max (set ks)" by linarith+
    then show "k \<in> set (rango_meses ks)" by (simp add: set_rango_meses[OF False])
  qed
qed


lemma sorted_rango_meses: "sorted_wrt (<) (rango_meses ks)"
  by (cases ks) simp_all

lemma etiqueta_rango:
  "etiqueta k = (y, mth) \<longleftrightarrow> 1 \<le> mth \<and> mth \<le> 12 \<and> k = 12 * y + int mth - 1"
proof
  assume e: "etiqueta k = (y, mth)"
  have m: "0 \<le> k mod 12" "k mod 12 < 12" by simp_all
  from e have y: "y = k div 12" and mth: "mth = nat (k mod 12) + 1"
    by (simp_all add: etiqueta_def)
  have "int mth = k mod 12 + 1" using m by (simp add: mth)
  moreover have "k = 12 * (k div 12) + k mod 12" by simp
  ultimately show "1 \<le> mth \<and> mth \<le> 12 \<and> k = 12 * y + int mth - 1"
    using m y by linarith
next
  assume a: "1 \<le> mth \<and> mth \<le> 12 \<and> k = 12 * y + int mth - 1"
  then have k: "k = (int mth - 1) + 12 * y" and r: "0 \<le> int mth - 1" "int mth - 1 < 12"
    by simp_all
  have "k div 12 = y" using r by (simp add: k div_pos_pos_trivial)
  moreover have "k mod 12 = int mth - 1" using r by (simp add: k mod_pos_pos_trivial)
  ultimately show "etiqueta k = (y, mth)" using a by (simp add: etiqueta_def)
qed

lemma etiqueta_inj: "etiqueta a = etiqueta b \<longleftrightarrow> a = b"
proof
  assume e: "etiqueta a = etiqueta b"
  obtain y mth where b: "etiqueta b = (y, mth)" by (cases "etiqueta b")
  with e have "etiqueta a = (y, mth)" by simp
  with b show "a = b" by (simp add: etiqueta_rango)
qed simp

lemma etiqueta_mes_ord:
  "1 \<le> mes d \<Longrightarrow> mes d \<le> 12 \<Longrightarrow> etiqueta (mes_ord d) = (anio d, mes d)"
  by (simp add: etiqueta_rango mes_ord_def)

lemma sorted_etiquetas:
  "sorted_wrt (<) ks \<Longrightarrow>
   sorted_wrt (\<lambda>a b. 12 * fst a + int (snd a) < 12 * fst b + int (snd b)) (map etiqueta ks)"
proof -
  have ord: "12 * fst (etiqueta k) + int (snd (etiqueta k)) = k + 1" for k
  proof -
    obtain y mth where e: "etiqueta k = (y, mth)" by (cases "etiqueta k")
    then have "k = 12 * y + int mth - 1" by (simp add: etiqueta_rango)
    then show ?thesis unfolding e by simp
  qed
  assume "sorted_wrt (<) ks"
  then have "sorted_wrt (\<lambda>a b. a + 1 < b + 1) ks"
    by (rule sorted_wrt_mono_rel[rotated]) simp
  then show ?thesis by (simp only: sorted_wrt_map ord)
qed

lemma claves_resample:
  "map fst (resample_ME_sum s) = map etiqueta (rango_meses (map (\<lambda>dv. mes_ord (fst dv)) s))"
  by (simp add: resample_ME_sum_def comp_def)

lemma resample_entry:
  assumes "kv \<in> set (resample_ME_sum (zip (map fecha t) (map g t)))"
  shows "snd kv = suma_f64 (map g (filter (\<lambda>v. etiqueta (mes_ord (fecha v)) = fst kv) t))"
proof -
  from assms obtain k where
    "kv = (etiqueta k, suma_f64 (map snd (filter (\<lambda>dv. mes_ord (fst dv) = k)
                                              (zip (map fecha t) (map g t)))))"
    by (auto simp: resample_ME_sum_def)
  then show ?thesis by (simp add: bin_zip etiqueta_inj)
qed

subsection \<open>Groups and their order\<close>

lemma set_sort_values_desc: "set (sort_values_desc s) = set s"
  by (simp add: sort_values_desc_def)

lemma sorted_sort_values_desc: "sorted_wrt (\<ge>) (map snd (sort_values_desc s))"
proof -
  have "sorted (map snd (sort_key snd (rev s)))" by (rule sorted_sort_key)
  then have "sorted_wrt (\<lambda>x y. y \<ge> x) (map snd (sort_key snd (rev s)))" by simp
  then show ?thesis
    by (simp add: sort_values_desc_def rev_map[symmetric] sorted_wrt_rev)
qed

lemma sort_values_desc_Nil: "sort_values_desc s = [] \<longleftrightarrow> s = []"
  by (metis set_sort_values_desc set_empty)

lemma finitos_Val: "finitos (map (\<lambda>kx. (fst kx, Val (snd kx))) xs) = xs"
  by (induction xs) auto

lemma no_NaN_Val: "filter (\<lambda>kv. snd kv = NaN) (map (\<lambda>kx. (fst kx, Val (snd kx))) xs) = []"
  by (induction xs) auto

lemma groupby_sum_f64_Val:
  "groupby_sum_f64 s =
     map (\<lambda>kx. (fst kx, Val (snd kx))) (map (\<lambda>p. (p, nansum 0 (grupo p s))) (claves s))"
  by (simp add: groupby_sum_f64_def suma_f64_def comp_def)

lemma sort_values_desc_f64_groupby:
  "sort_values_desc_f64 (groupby_sum_f64 s) =
     map (\<lambda>kx. (fst kx, Val (snd kx)))
       (sort_values_desc (map (\<lambda>p. (p, nansum 0 (grupo p s))) (claves s)))"
  unfolding sort_values_desc_f64_def groupby_sum_f64_Val finitos_Val no_NaN_Val by simp

lemma groupby_f64_entry:
  assumes "kv \<in> set (sort_values_desc_f64 (groupby_sum_f64 (zip (map producto t) (map g t))))"
  shows "snd kv = suma_f64 (map g (filter (\<lambda>v. producto v = Some (fst kv)) t))"
  using assms
  by (auto simp: sort_values_desc_f64_groupby set_sort_values_desc grupo_zip suma_f64_def)


lemma claves_set: "set (claves s) = {p. \<exists>v. (Some p, v) \<in> set s}"
  by (auto simp: claves_def image_iff) force

lemma claves_Nil: "claves s = [] \<longleftrightarrow> (\<forall>kv\<in>set s. fst kv = None)"
proof -
  have "claves s = [] \<longleftrightarrow> set (claves s) = {}" by simp
  also have "\<dots> \<longleftrightarrow> (\<forall>kv\<in>set s. fst kv = None)"
    unfolding claves_set by (auto simp: ) (metis not_Some_eq prod.collapse fst_conv)+
  finally show ?thesis .
qed

subsection \<open>The first largest entry\<close>







subsection \<open>The sample runs\<close>

lemma mem_ej_0: "objetos mem_ej 0 = Some df_ej"
  by code_simp

lemma mem_ej_metricas: "snd (calcular_metricas mem_ej 0) = Inr metricas_ej"
  by code_simp

subsection \<open>More sample runs\<close>

lemma mem_nan_0: "objetos mem_nan 0 = Some df_nan"
  by code_simp

lemma mem_nan_metricas: "snd (calcular_metricas mem_nan 0) = Inr metricas_nan"
  by code_simp

lemma mem_sin_producto_0: "objetos mem_sin_producto 0 = Some df_sin_producto"
  by code_simp

lemma mem_todo_nan_0: "objetos mem_todo_nan 0 = Some df_todo_nan"
  by code_simp

lemma meses_validos_ej: "\<forall>v\<in>set (filas df_ej). 1 \<le> mes (fecha v) \<and> mes (fecha v) \<le> 12"
  by code_simp

lemma con_producto_todo_nan: "\<exists>v\<in>set (filas df_todo_nan). producto v \<noteq> None"
  by code_simp

lemma mem_ej_siguiente: "0 < siguiente mem_ej"
  by code_simp

subsection \<open>When the aggregation returns\<close>

lemma agregar_devuelve:
  assumes "\<exists>v\<in>set t. producto v \<noteq> None"
  shows "\<exists>m. agregar r t (map (\<lambda>v. mul_f64 (cantidad v) (precio v)) t) = Inr m"
proof -
  let ?g = "\<lambda>v. mul_f64 (cantidad v) (precio v)"
  have c1: "claves (zip (map producto t) (map cantidad t)) \<noteq> []"
    using assms by (auto simp: claves_Nil zip_map_same)
  have c2: "claves (zip (map producto t) (map ?g t)) \<noteq> []"
    using assms by (auto simp: claves_Nil zip_map_same)
  let ?cpp = "sort_values_desc (groupby_sum (zip (map producto t) (map cantidad t)))"
  let ?s = "sort_values_desc (map (\<lambda>p. (p, nansum 0 (grupo p (zip (map producto t) (map ?g t)))))
                 (claves (zip (map producto t) (map ?g t))))"
  have "?cpp \<noteq> []" using c1 by (simp add: sort_values_desc_Nil groupby_sum_def)
  then obtain b1 r1 where cpp: "?cpp = b1 # r1" by (cases ?cpp) auto
  have "?s \<noteq> []" using c2 by (simp add: sort_values_desc_Nil)
  then obtain b2 r2 where s: "?s = b2 # r2" by (cases ?s) auto
  have "idxmax_f64 (sort_values_desc_f64 (groupby_sum_f64 (zip (map producto t) (map ?g t)))) =
        Inr (fst (primero_max b2 r2))"
    by (simp add: sort_values_desc_f64_groupby idxmax_f64_def finitos_Val s)
  moreover have "t \<noteq> []" using assms by auto
  ultimately show ?thesis
    by (simp add: agregar_def Let_def cpp)
qed

lemma agregar_sin_producto:
  assumes "\<forall>v\<in>set t. producto v = None" and "t \<noteq> []"
  shows "agregar r t ing = Inl ValueError"
proof -
  have "claves (zip (map producto t) (map cantidad t)) = []"
    using assms(1) by (auto simp: claves_Nil zip_map_same)
  then show ?thesis
    using assms(2) by (simp add: agregar_def groupby_sum_def sort_values_desc_def)
qed

subsection \<open>Sums of whole numbers are exact\<close>

lemma mem_decimal_0: "objetos mem_decimal 0 = Some df_decimal"
  by code_simp

lemma redondear_Ints: "x \<in> \<int> \<Longrightarrow> \<bar>x\<bar> \<le> 2 ^ 53 \<Longrightarrow> redondear x = x"
proof -
  assume "x \<in> \<int>" and b: "\<bar>x\<bar> \<le> 2 ^ 53"
  then obtain n where x: "x = of_int n" by (auto elim: Ints_cases)
  have "real_of_int \<bar>n\<bar> \<le> real_of_int (2 ^ 53)" using b by (simp add: x)
  then have "\<bar>n\<bar> \<le> 2 ^ 53" by (simp only: of_int_le_iff)
  then show ?thesis unfolding x by (rule redondear_entero)
qed

lemma nansum_enteros:
  assumes "\<forall>v\<in>set vs. valor v \<in> \<int>" and "acc \<in> \<int>"
    and "\<bar>acc\<bar> + (\<Sum>v\<leftarrow>vs. \<bar>valor v\<bar>) \<le> 2 ^ 53"
  shows "nansum acc vs = acc + (\<Sum>v\<leftarrow>vs. valor v)"
  using assms
proof (induction acc vs rule: nansum.induct)
  case (1 acc)
  then show ?case by simp
next
  case (2 acc vs)
  then show ?case by simp
next
  case (3 acc x vs)
  have x: "x \<in> \<int>" using "3.prems"(1) by simp
  have s0: "0 \<le> (\<Sum>v\<leftarrow>vs. \<bar>valor v\<bar>)" by (rule sum_list_nonneg) auto
  have b: "\<bar>acc + x\<bar> + (\<Sum>v\<leftarrow>vs. \<bar>valor v\<bar>) \<le> 2 ^ 53"
    using "3.prems"(3) by simp
  then have "\<bar>acc + x\<bar> \<le> 2 ^ 53" using s0 by linarith
  moreover have ax: "acc + x \<in> \<int>" using x "3.prems"(2) by simp
  ultimately have r: "redondear (acc + x) = acc + x" by (intro redondear_Ints)
  have "nansum (redondear (acc + x)) vs = redondear (acc + x) + (\<Sum>v\<leftarrow>vs. valor v)"
    using "3.prems"(1) ax b by (intro "3.IH") (simp_all add: r)
  then show ?case by (simp add: r)
qed

lemma suma_f64_enteros:
  assumes "\<forall>v\<in>set vs. valor v \<in> \<int>" and "(\<Sum>v\<leftarrow>vs. \<bar>valor v\<bar>) \<le> 2 ^ 53"
  shows "suma_f64 vs = Val (\<Sum>v\<leftarrow>vs. valor v)"
  using nansum_enteros[of vs 0] assms by (simp add: suma_f64_def)

lemma valor_mul_entero:
  assumes "valor p \<in> \<int>" and "\<bar>of_int q * valor p\<bar> \<le> 2 ^ 53"
  shows "valor (mul_f64 q p) = of_int q * valor p"
proof (cases p)
  case NaN
  then show ?thesis by simp
next
  case (Val x)
  show ?thesis
  proof (cases "x = 0")
    case True
    then show ?thesis by (simp add: Val redondear_def)
  next
    case False
    from assms(1) Val obtain k where k: "x = of_int k" by (auto elim: Ints_cases)
    with False have "k \<noteq> 0" by simp
    then have "1 \<le> \<bar>real_of_int k\<bar>" by (metis of_int_abs of_int_1_le_iff zless_imp_add1_zle zero_less_abs_iff add_0)
    then have "\<bar>real_of_int q\<bar> * 1 \<le> \<bar>real_of_int q\<bar> * \<bar>real_of_int k\<bar>"
      by (intro mult_left_mono) simp_all
    then have "\<bar>real_of_int q\<bar> \<le> 2 ^ 53" using assms(2) by (simp add: Val k abs_mult)
    then have q: "redondear (of_int q) = of_int q" by (intro redondear_Ints) simp_all
    have "redondear (of_int q * x) = of_int q * x"
      using assms(2) by (intro redondear_Ints) (simp_all add: Val k)
    then show ?thesis by (simp add: Val q)
  qed
qed

lemma abs_le_sum_list: "v \<in> set xs \<Longrightarrow> \<bar>f v :: real\<bar> \<le> (\<Sum>x\<leftarrow>xs. \<bar>f x\<bar>)"
proof (induction xs)
  case Nil
  then show ?case by simp
next
  case (Cons a xs)
  have "0 \<le> (\<Sum>x\<leftarrow>xs. \<bar>f x\<bar>)" by (rule sum_list_nonneg) auto
  with Cons show ?case by (cases "v = a") auto
qed

lemma sum_list_abs_filter_le:
  "(\<Sum>x\<leftarrow>filter P xs. \<bar>f x :: real\<bar>) \<le> (\<Sum>x\<leftarrow>xs. \<bar>f x\<bar>)"
  by (induction xs) auto



lemma suma_ingresos_enteros:
  assumes ent: "\<forall>v\<in>set t. valor (precio v) \<in> \<int>"
    and cota: "(\<Sum>v\<leftarrow>t. \<bar>of_int (cantidad v) * valor (precio v)\<bar>) \<le> 2 ^ 53"
  shows "suma_f64 (map (\<lambda>v. mul_f64 (cantidad v) (precio v)) (filter P t)) =
         Val (\<Sum>v\<leftarrow>filter P t. of_int (cantidad v) * valor (precio v))"
proof -
  let ?c = "\<lambda>v. of_int (cantidad v) * valor (precio v)"
  let ?g = "\<lambda>v. mul_f64 (cantidad v) (precio v)"
  have vg: "valor (?g v) = ?c v" if "v \<in> set t" for v
  proof -
    have "\<bar>?c v\<bar> \<le> (\<Sum>v\<leftarrow>t. \<bar>?c v\<bar>)" using that by (rule abs_le_sum_list)
    with cota have "\<bar>?c v\<bar> \<le> 2 ^ 53" by linarith
    with ent that show ?thesis by (intro valor_mul_entero) auto
  qed
  have cz: "?c v \<in> \<int>" if "v \<in> set t" for v using ent that by auto
  have eq: "map (\<lambda>v. valor (?g v)) (filter P t) = map ?c (filter P t)"
    by (rule map_cong) (auto simp: vg)
  have eqa: "map (\<lambda>v. \<bar>valor (?g v)\<bar>) (filter P t) = map (\<lambda>v. \<bar>?c v\<bar>) (filter P t)"
    by (rule map_cong) (auto simp: vg)
  have "suma_f64 (map ?g (filter P t)) = Val (\<Sum>x\<leftarrow>map ?g (filter P t). valor x)"
  proof (rule suma_f64_enteros)
    show "\<forall>x\<in>set (map ?g (filter P t)). valor x \<in> \<int>" using vg cz by auto
    have "(\<Sum>x\<leftarrow>map ?g (filter P t). \<bar>valor x\<bar>) =
          sum_list (map (\<lambda>v. \<bar>valor (?g v)\<bar>) (filter P t))"
      by (simp add: comp_def)
    also have "\<dots> = (\<Sum>v\<leftarrow>filter P t. \<bar>?c v\<bar>)" by (simp only: eqa)
    also have "\<dots> \<le> (\<Sum>v\<leftarrow>t. \<bar>?c v\<bar>)" by (rule sum_list_abs_filter_le)
    finally show "(\<Sum>x\<leftarrow>map ?g (filter P t). \<bar>valor x\<bar>) \<le> 2 ^ 53" using cota by linarith
  qed
  also have "(\<Sum>x\<leftarrow>map ?g (filter P t). valor x) =
             sum_list (map (\<lambda>v. valor (?g v)) (filter P t))"
    by (simp add: comp_def)
  also have "\<dots> = (\<Sum>v\<leftarrow>filter P t. ?c v)" by (simp only: eq)
  finally show ?thesis .
qed


lemma precio_entero_Ints:
  "\<forall>v\<in>set t. of_int \<lfloor>valor (precio v)\<rfloor> = valor (precio v) \<Longrightarrow>
   \<forall>v\<in>set t. valor (precio v) \<in> \<int>"
  by (metis Ints_of_int)



subsection \<open>Entries of the aggregated series\<close>

lemma entrada_mensual:
  assumes "v \<in> set t"
  shows "\<exists>x. (etiqueta (mes_ord (fecha v)), Val x) \<in>
              set (resample_ME_sum (zip (map fecha t) (map g t)))"
proof -
  let ?k = "mes_ord (fecha v)"
  have "?k \<in> set (map (\<lambda>w. mes_ord (fecha w)) t)" using assms by simp
  then have "?k \<in> set (rango_meses (map (\<lambda>w. mes_ord (fecha w)) t))"
    by (rule rango_meses_covers)
  then have "?k \<in> set (rango_meses (map (\<lambda>dv. mes_ord (fst dv)) (zip (map fecha t) (map g t))))"
    by (simp add: zip_map_same comp_def)
  then show ?thesis
    unfolding resample_ME_sum_def suma_f64_def by (auto simp: image_iff)
qed

lemma entrada_producto:
  assumes "v \<in> set t" and "producto v = Some p"
  shows "\<exists>x. (p, Val x) \<in>
              set (sort_values_desc_f64 (groupby_sum_f64 (zip (map producto t) (map g t))))"
proof -
  have "(Some p, g v) \<in> set (zip (map producto t) (map g t))"
    using assms by (force simp: zip_map_same image_iff)
  then have "p \<in> set (claves (zip (map producto t) (map g t)))"
    unfolding claves_set by blast
  then show ?thesis
    unfolding sort_values_desc_f64_groupby
    by (auto simp: set_sort_values_desc image_iff)
qed

lemma fila_nan:
  "0 < length (filas df_nan)" "precio (filas df_nan ! 0) = NaN"
  "1 \<le> mes (fecha (filas df_nan ! 0))" "mes (fecha (filas df_nan ! 0)) \<le> 12"
  by code_simp+

lemma fila_nan_campos:
  "anio (fecha (filas df_nan ! 0)) = 2024" "mes (fecha (filas df_nan ! 0)) = 1"
  "producto (filas df_nan ! 0) = Some ''A''"
  by code_simp+

lemma cota_nan: "(\<Sum>w\<leftarrow>filas df_nan. \<bar>of_int (cantidad w) * valor (precio w)\<bar>) < 2 ^ 1000"
  by code_simp

section \<open>The claims\<close>

text \<open>
  C1 as stated fails: on three units at the price \<^verbatim>\<open>0.1\<close> the revenue column holds
  \<^verbatim>\<open>0.30000000000000004\<close>, the float64 product, which is not three times the price.
\<close>

theorem ingreso_redondeado_counterexample:
  "objetos mem_decimal 0 = Some df_decimal \<and>
   map cantidad (filas df_decimal) = [3] \<and>
   map precio (filas df_decimal) = [Val (3602879701896397 / 36028797018963968)] \<and>
   objetos (fst (calcular_metricas mem_decimal 0)) 1 =
     Some (df_decimal\<lparr>ingreso := Some [Val (1351079888211149 / 4503599627370496)]\<rparr>) \<and>
   (1351079888211149 / 4503599627370496 :: real) \<noteq> 3 * (3602879701896397 / 36028797018963968)"
  by code_simp

text \<open>
  C1, amended. When \<^verbatim>\<open>calcular_metricas\<close> returns, the table under the key \<^verbatim>\<open>df\<close> of its
  result has the rows of the table it was given and a revenue column of the same length.
  On a row without a price the revenue is NaN. On a row whose price is a float64 the
  revenue is the float64 product: the quantity converted to float64, times the price,
  rounded to the nearest float64; it is the exact product whenever the quantity is at
  most \<open>2 ^ 53\<close> in magnitude and the exact product is a float64. This is stated for
  products below the float64 range, and for a column of whole-number prices only up to
  \<open>2 ^ 53\<close>, beyond which an int64 column multiplies in int64.
\<close>

theorem ingreso_por_fila:
  assumes "objetos h r = Some d" and "snd (calcular_metricas h r) = Inr m"
  shows "\<exists>d'. objetos (fst (calcular_metricas h r)) (df m) = Some d' \<and> filas d' = filas d \<and>
           (\<exists>ing. ingreso d' = Some ing \<and> length ing = length (filas d) \<and>
              (\<forall>i<length (filas d).
                 (precio (filas d ! i) = NaN \<longrightarrow> ing ! i = NaN) \<and>
                 (\<forall>p. precio (filas d ! i) = Val p \<and> redondear p = p \<and>
                      \<bar>of_int (cantidad (filas d ! i)) * p\<bar> < 2 ^ 1023 \<and>
                      (columna_flotante (filas d) \<or>
                       \<bar>of_int (cantidad (filas d ! i)) * p\<bar> \<le> 2 ^ 53) \<longrightarrow>
                    ing ! i =
                      Val (redondear (redondear (of_int (cantidad (filas d ! i))) * p)) \<and>
                    (\<bar>cantidad (filas d ! i)\<bar> \<le> 2 ^ 53 \<and>
                     redondear (of_int (cantidad (filas d ! i)) * p) =
                       of_int (cantidad (filas d ! i)) * p \<longrightarrow>
                     ing ! i = Val (of_int (cantidad (filas d ! i)) * p)))))"
proof -
  let ?ing = "map (\<lambda>v. mul_f64 (cantidad v) (precio v)) (filas d)"
  from assms have "agregar (siguiente h) (filas d) ?ing = Inr m"
    by (simp add: snd_calcular_metricas)
  then have "df m = siguiente h" by (rule agregar_Inr(1))
  then have "objetos (fst (calcular_metricas h r)) (df m) = Some (d\<lparr>ingreso := Some ?ing\<rparr>)"
    using assms(1) by (simp add: objetos_calcular_metricas)
  moreover have "\<forall>i<length (filas d).
                 (precio (filas d ! i) = NaN \<longrightarrow> ?ing ! i = NaN) \<and>
                 (\<forall>p. precio (filas d ! i) = Val p \<and> redondear p = p \<and>
                      \<bar>of_int (cantidad (filas d ! i)) * p\<bar> < 2 ^ 1023 \<and>
                      (columna_flotante (filas d) \<or>
                       \<bar>of_int (cantidad (filas d ! i)) * p\<bar> \<le> 2 ^ 53) \<longrightarrow>
                    ?ing ! i =
                      Val (redondear (redondear (of_int (cantidad (filas d ! i))) * p)) \<and>
                    (\<bar>cantidad (filas d ! i)\<bar> \<le> 2 ^ 53 \<and>
                     redondear (of_int (cantidad (filas d ! i)) * p) =
                       of_int (cantidad (filas d ! i)) * p \<longrightarrow>
                     ?ing ! i = Val (of_int (cantidad (filas d ! i)) * p)))"
    by (auto simp: redondear_entero)
  ultimately show ?thesis by simp
qed

theorem ingreso_por_fila_witness:
  "\<exists>d'. objetos (fst (calcular_metricas mem_ej 0)) (df metricas_ej) = Some d' \<and>
        filas d' = filas df_ej \<and>
        (\<exists>ing. ingreso d' = Some ing \<and> length ing = length (filas df_ej) \<and>
           (\<forall>i<length (filas df_ej).
              (precio (filas df_ej ! i) = NaN \<longrightarrow> ing ! i = NaN) \<and>
              (\<forall>p. precio (filas df_ej ! i) = Val p \<and> redondear p = p \<and>
                   \<bar>of_int (cantidad (filas df_ej ! i)) * p\<bar> < 2 ^ 1023 \<and>
                   (columna_flotante (filas df_ej) \<or>
                    \<bar>of_int (cantidad (filas df_ej ! i)) * p\<bar> \<le> 2 ^ 53) \<longrightarrow>
                 ing ! i =
                   Val (redondear (redondear (of_int (cantidad (filas df_ej ! i))) * p)) \<and>
                 (\<bar>cantidad (filas df_ej ! i)\<bar> \<le> 2 ^ 53 \<and>
                  redondear (of_int (cantidad (filas df_ej ! i)) * p) =
                    of_int (cantidad (filas df_ej ! i)) * p \<longrightarrow>
                  ing ! i = Val (of_int (cantidad (filas df_ej ! i)) * p)))))"
  by (rule ingreso_por_fila[OF mem_ej_0 mem_ej_metricas])





text \<open>
  C3 as stated fails: the table \<open>df_ej\<close> has sales in January and March 2024 only, and
  the monthly series has an entry for February 2024 as well.
\<close>

theorem meses_sin_ventas_counterexample:
  "objetos mem_ej 0 = Some df_ej \<and>
   snd (calcular_metricas mem_ej 0) = Inr metricas_ej \<and>
   set (map fst (ventas_mensuales metricas_ej)) \<noteq>
     (\<lambda>v. (anio (fecha v), mes (fecha v))) ` set (filas df_ej)"
  by code_simp

text \<open>
  C3, amended. For a table whose dates have months 1 to 12, the monthly series has a key
  for the month of every row; a month is a key exactly when it lies between the months
  of two rows of the table, so the keys are all the months from the earliest to the
  latest one, with or without sales; and the keys are in strictly increasing
  chronological order.
\<close>

theorem meses_de_la_serie:
  assumes "objetos h r = Some d" and "snd (calcular_metricas h r) = Inr m"
    and "\<forall>v\<in>set (filas d). 1 \<le> mes (fecha v) \<and> mes (fecha v) \<le> 12"
  shows "(\<forall>v\<in>set (filas d). (anio (fecha v), mes (fecha v)) \<in> set (map fst (ventas_mensuales m))) \<and>
         (\<forall>y mth. (y, mth) \<in> set (map fst (ventas_mensuales m)) \<longleftrightarrow>
            1 \<le> mth \<and> mth \<le> 12 \<and>
            (\<exists>v\<in>set (filas d). \<exists>w\<in>set (filas d).
               mes_ord (fecha v) \<le> 12 * y + int mth - 1 \<and>
               12 * y + int mth - 1 \<le> mes_ord (fecha w))) \<and>
         sorted_wrt (\<lambda>a b. 12 * fst a + int (snd a) < 12 * fst b + int (snd b))
           (map fst (ventas_mensuales m))"
proof -
  let ?g = "\<lambda>v. mul_f64 (cantidad v) (precio v)"
  let ?ks = "map (\<lambda>v. mes_ord (fecha v)) (filas d)"
  from assms have "agregar (siguiente h) (filas d) (map ?g (filas d)) = Inr m"
    by (simp add: snd_calcular_metricas)
  then have "ventas_mensuales m = resample_ME_sum (zip (map fecha (filas d)) (map ?g (filas d)))"
    by (rule agregar_Inr(2))
  then have keys: "map fst (ventas_mensuales m) = map etiqueta (rango_meses ?ks)"
    by (simp add: claves_resample zip_map_same comp_def)
  have iff: "(y, mth) \<in> set (map fst (ventas_mensuales m)) \<longleftrightarrow>
            1 \<le> mth \<and> mth \<le> 12 \<and>
            (\<exists>v\<in>set (filas d). \<exists>w\<in>set (filas d).
               mes_ord (fecha v) \<le> 12 * y + int mth - 1 \<and>
               12 * y + int mth - 1 \<le> mes_ord (fecha w))" for y mth
  proof -
    have "(y, mth) \<in> set (map fst (ventas_mensuales m)) \<longleftrightarrow>
          (\<exists>k\<in>set (rango_meses ?ks). etiqueta k = (y, mth))"
      unfolding keys by (auto simp: image_iff) metis+
    also have "\<dots> \<longleftrightarrow> 1 \<le> mth \<and> mth \<le> 12 \<and> 12 * y + int mth - 1 \<in> set (rango_meses ?ks)"
      by (auto simp: etiqueta_rango)
    also have "\<dots> \<longleftrightarrow> 1 \<le> mth \<and> mth \<le> 12 \<and>
            (\<exists>v\<in>set (filas d). \<exists>w\<in>set (filas d).
               mes_ord (fecha v) \<le> 12 * y + int mth - 1 \<and>
               12 * y + int mth - 1 \<le> mes_ord (fecha w))"
      by (simp add: rango_meses_iff)
    finally show ?thesis .
  qed
  have "\<forall>v\<in>set (filas d). (anio (fecha v), mes (fecha v)) \<in> set (map fst (ventas_mensuales m))"
  proof
    fix v assume v: "v \<in> set (filas d)"
    with assms(3) have ok: "1 \<le> mes (fecha v)" "mes (fecha v) \<le> 12" by simp_all
    have "mes_ord (fecha v) \<in> set (rango_meses ?ks)"
      using v by (intro rango_meses_covers) simp
    then have "etiqueta (mes_ord (fecha v)) \<in> set (map fst (ventas_mensuales m))"
      by (simp add: keys)
    then show "(anio (fecha v), mes (fecha v)) \<in> set (map fst (ventas_mensuales m))"
      by (simp only: etiqueta_mes_ord[OF ok])
  qed
  moreover have "sorted_wrt (\<lambda>a b. 12 * fst a + int (snd a) < 12 * fst b + int (snd b))
           (map fst (ventas_mensuales m))"
    unfolding keys by (rule sorted_etiquetas[OF sorted_rango_meses])
  ultimately show ?thesis using iff by blast
qed

theorem meses_de_la_serie_witness:
  "(2024, 3) \<in> set (map fst (ventas_mensuales metricas_ej)) \<and>
   (2024, 2) \<in> set (map fst (ventas_mensuales metricas_ej)) \<and>
   (2024, 4) \<notin> set (map fst (ventas_mensuales metricas_ej)) \<and>
   sorted_wrt (\<lambda>a b. 12 * fst a + int (snd a) < 12 * fst b + int (snd b))
     (map fst (ventas_mensuales metricas_ej))"
proof -
  note t = meses_de_la_serie[OF mem_ej_0 mem_ej_metricas meses_validos_ej]
  have v0: "tabla_ej ! 0 \<in> set (filas df_ej)" and v2: "tabla_ej ! 2 \<in> set (filas df_ej)"
    by code_simp+
  have "(anio (fecha (tabla_ej ! 2)), mes (fecha (tabla_ej ! 2))) \<in>
          set (map fst (ventas_mensuales metricas_ej))"
    using t v2 by blast
  moreover have "(anio (fecha (tabla_ej ! 2)), mes (fecha (tabla_ej ! 2))) = (2024, 3)"
    by code_simp
  ultimately have marzo: "(2024, 3) \<in> set (map fst (ventas_mensuales metricas_ej))"
    by simp
  have iff: "(y, mth) \<in> set (map fst (ventas_mensuales metricas_ej)) \<longleftrightarrow>
      1 \<le> mth \<and> mth \<le> 12 \<and>
      (\<exists>v\<in>set (filas df_ej). \<exists>w\<in>set (filas df_ej).
         mes_ord (fecha v) \<le> 12 * y + int mth - 1 \<and>
         12 * y + int mth - 1 \<le> mes_ord (fecha w))" for y mth
    using t by blast
  have "mes_ord (fecha (tabla_ej ! 0)) \<le> 12 * 2024 + int 2 - 1"
       "12 * 2024 + int 2 - 1 \<le> mes_ord (fecha (tabla_ej ! 2))"
    by code_simp+
  with v0 v2 have febrero: "(2024, 2) \<in> set (map fst (ventas_mensuales metricas_ej))"
    unfolding iff by auto
  have "\<not> (\<exists>w\<in>set (filas df_ej). 12 * 2024 + int 4 - 1 \<le> mes_ord (fecha w))"
    by code_simp
  then have abril: "(2024, 4) \<notin> set (map fst (ventas_mensuales metricas_ej))"
    unfolding iff by blast
  from marzo febrero abril t show ?thesis by blast
qed

text \<open>
  C7. When \<^verbatim>\<open>calcular_metricas\<close> returns, the values of the quantity-by-product series are
  in non-increasing order, and so are those of the revenue-by-product series, all of
  which are numbers.
\<close>

theorem rankings_no_crecientes:
  assumes "objetos h r = Some d" and "snd (calcular_metricas h r) = Inr m"
  shows "sorted_wrt (\<ge>) (map snd (cant_por_producto m)) \<and>
         (\<exists>xs. map snd (ingresos_por_producto m) = map Val xs \<and> sorted_wrt (\<ge>) xs)"
proof -
  let ?g = "\<lambda>v. mul_f64 (cantidad v) (precio v)"
  from assms have a: "agregar (siguiente h) (filas d) (map ?g (filas d)) = Inr m"
    by (simp add: snd_calcular_metricas)
  have "sorted_wrt (\<ge>) (map snd (cant_por_producto m))"
    unfolding agregar_Inr(3)[OF a] by (rule sorted_sort_values_desc)
  moreover
  let ?s = "sort_values_desc (map (\<lambda>p. (p, nansum 0 (grupo p (zip (map producto (filas d)) (map ?g (filas d))))))
                 (claves (zip (map producto (filas d)) (map ?g (filas d)))))"
  have "map snd (ingresos_por_producto m) = map Val (map snd ?s)"
    unfolding agregar_Inr(4)[OF a] sort_values_desc_f64_groupby by (simp add: comp_def)
  moreover have "sorted_wrt (\<ge>) (map snd ?s)" by (rule sorted_sort_values_desc)
  ultimately show ?thesis by blast
qed

theorem rankings_no_crecientes_witness:
  "sorted_wrt (\<ge>) (map snd (cant_por_producto metricas_ej)) \<and>
   (\<exists>xs. map snd (ingresos_por_producto metricas_ej) = map Val xs \<and> sorted_wrt (\<ge>) xs)"
  by (rule rankings_no_crecientes[OF mem_ej_0 mem_ej_metricas])

text \<open>
  C9. Called on an object \<open>r\<close> of the store (the objects in use are those below
  \<open>siguiente\<close>), \<^verbatim>\<open>calcular_metricas\<close> leaves every object of the store as it was, the
  table it is given among them, whether it returns or raises; the table under the key
  \<^verbatim>\<open>df\<close> of its result is another object, the copy that received the revenue column.
\<close>

theorem tabla_no_mutada:
  assumes "r < siguiente h"
  shows "(\<forall>r0<siguiente h. objetos (fst (calcular_metricas h r)) r0 = objetos h r0) \<and>
         (\<forall>m. snd (calcular_metricas h r) = Inr m \<longrightarrow> df m \<noteq> r)"
proof (cases "objetos h r")
  case None
  then show ?thesis by (simp add: calcular_metricas_None)
next
  case (Some d)
  have "\<forall>r0<siguiente h. objetos (fst (calcular_metricas h r)) r0 = objetos h r0"
    by (simp add: objetos_calcular_metricas[OF Some])
  moreover have "df m \<noteq> r" if "snd (calcular_metricas h r) = Inr m" for m
  proof -
    from that have "agregar (siguiente h) (filas d)
        (map (\<lambda>v. mul_f64 (cantidad v) (precio v)) (filas d)) = Inr m"
      by (simp add: snd_calcular_metricas[OF Some])
    then have "df m = siguiente h" by (rule agregar_Inr(1))
    with assms show ?thesis by simp
  qed
  ultimately show ?thesis by blast
qed

theorem tabla_no_mutada_witness:
  "0 < siguiente mem_ej \<and>
   objetos (fst (calcular_metricas mem_ej 0)) 0 = Some df_ej \<and>
   df metricas_ej \<noteq> 0"
  using tabla_no_mutada[OF mem_ej_siguiente] mem_ej_siguiente mem_ej_0 mem_ej_metricas
  by auto

text \<open>
  C10 as stated fails: \<open>df_sin_producto\<close> has one row, whose product cell is empty;
  \<^verbatim>\<open>groupby\<close> leaves the row out, the quantity-by-product series is empty and
  \<^verbatim>\<open>idxmax\<close> raises ValueError.
\<close>

theorem sin_producto_counterexample:
  "objetos mem_sin_producto 0 = Some df_sin_producto \<and>
   length (filas df_sin_producto) = 1 \<and>
   snd (calcular_metricas mem_sin_producto 0) = Inl ValueError"
  by code_simp

text \<open>
  C10, amended. On a table with at least one row that has a product label,
  \<^verbatim>\<open>calcular_metricas\<close> returns its dictionary, whatever the prices are: both top lookups
  are defined even when every price is NaN.
\<close>

theorem calcular_metricas_devuelve:
  assumes "objetos h r = Some d" and "\<exists>v\<in>set (filas d). producto v \<noteq> None"
  shows "\<exists>m. snd (calcular_metricas h r) = Inr m"
  using agregar_devuelve[OF assms(2)] by (simp add: snd_calcular_metricas[OF assms(1)])

theorem calcular_metricas_devuelve_witness:
  "map precio (filas df_todo_nan) = [NaN, NaN] \<and>
   (\<exists>m. snd (calcular_metricas mem_todo_nan 0) = Inr m)"
proof
  show "map precio (filas df_todo_nan) = [NaN, NaN]" by code_simp
  show "\<exists>m. snd (calcular_metricas mem_todo_nan 0) = Inr m"
    by (rule calcular_metricas_devuelve[OF mem_todo_nan_0 con_producto_todo_nan])
qed



text \<open>
  C5 as stated fails: in \<open>df_nan\<close> the first row has no price, so its revenue is NaN,
  yet the sum of its month and the sum of its product are both 50, not NaN.
\<close>

theorem suma_con_NaN_counterexample:
  "objetos mem_nan 0 = Some df_nan \<and>
   precio (filas df_nan ! 0) = NaN \<and>
   snd (calcular_metricas mem_nan 0) = Inr metricas_nan \<and>
   ventas_mensuales metricas_nan = [((2024, 1), Val 50)] \<and>
   ingresos_por_producto metricas_nan = [(''A'', Val 50)]"
  by code_simp

text \<open>
  C5, amended. A row without a price has NaN revenue in the revenue column, and that NaN
  does not reach the sums: the monthly series has an entry for the row's month and the
  revenue-by-product series has one for the row's product, when it has a label, and both
  entries are numbers. This is stated for tables whose magnitudes of quantity times price
  add up to less than \<open>2 ^ 1000\<close>, so that no float64 sum overflows. When moreover the
  prices are whole numbers and these magnitudes add up to at most \<open>2 ^ 53\<close>, so that no
  sum is rounded, every entry of either series is the sum of quantity times price over
  the rows of that month, or of that product, that have a price: the rows without one
  are left out.
\<close>

theorem sumas_sin_NaN:
  assumes "objetos h r = Some d" and "snd (calcular_metricas h r) = Inr m"
    and "i < length (filas d)" and "precio (filas d ! i) = NaN"
    and "1 \<le> mes (fecha (filas d ! i))" and "mes (fecha (filas d ! i)) \<le> 12"
    and "(\<Sum>w\<leftarrow>filas d. \<bar>of_int (cantidad w) * valor (precio w)\<bar>) < 2 ^ 1000"
  shows "(\<exists>d' ing. objetos (fst (calcular_metricas h r)) (df m) = Some d' \<and>
            ingreso d' = Some ing \<and> ing ! i = NaN) \<and>
         (\<exists>x. ((anio (fecha (filas d ! i)), mes (fecha (filas d ! i))), Val x) \<in>
                 set (ventas_mensuales m)) \<and>
         (\<forall>p. producto (filas d ! i) = Some p \<longrightarrow>
              (\<exists>x. (p, Val x) \<in> set (ingresos_por_producto m))) \<and>
         ((\<forall>v\<in>set (filas d). of_int \<lfloor>valor (precio v)\<rfloor> = valor (precio v)) \<and>
          (\<Sum>w\<leftarrow>filas d. \<bar>of_int (cantidad w) * valor (precio w)\<bar>) \<le> 2 ^ 53 \<longrightarrow>
          (\<forall>kv\<in>set (ventas_mensuales m).
             snd kv =
               Val (\<Sum>v\<leftarrow>filter (\<lambda>v. etiqueta (mes_ord (fecha v)) = fst kv \<and> precio v \<noteq> NaN)
                          (filas d). of_int (cantidad v) * valor (precio v))) \<and>
          (\<forall>kv\<in>set (ingresos_por_producto m).
             snd kv =
               Val (\<Sum>v\<leftarrow>filter (\<lambda>v. producto v = Some (fst kv) \<and> precio v \<noteq> NaN)
                          (filas d). of_int (cantidad v) * valor (precio v))))"
proof -
  let ?g = "\<lambda>v. mul_f64 (cantidad v) (precio v)"
  let ?ing = "map ?g (filas d)"
  let ?v = "filas d ! i"
  have v: "?v \<in> set (filas d)" using assms(3) by simp
  from assms(1,2) have a: "agregar (siguiente h) (filas d) ?ing = Inr m"
    by (simp add: snd_calcular_metricas)
  then have "df m = siguiente h" by (rule agregar_Inr(1))
  then have "objetos (fst (calcular_metricas h r)) (df m) = Some (d\<lparr>ingreso := Some ?ing\<rparr>)"
    using assms(1) by (simp add: objetos_calcular_metricas)
  moreover have "?ing ! i = NaN" using assms(3,4) by simp
  ultimately have c1: "\<exists>d' ing. objetos (fst (calcular_metricas h r)) (df m) = Some d' \<and>
            ingreso d' = Some ing \<and> ing ! i = NaN"
    by simp
  have vm: "ventas_mensuales m = resample_ME_sum (zip (map fecha (filas d)) ?ing)"
    using a by (rule agregar_Inr(2))
  have ipp: "ingresos_por_producto m =
      sort_values_desc_f64 (groupby_sum_f64 (zip (map producto (filas d)) ?ing))"
    using a by (rule agregar_Inr(4))
  have c2: "\<exists>x. ((anio (fecha ?v), mes (fecha ?v)), Val x) \<in> set (ventas_mensuales m)"
    using entrada_mensual[OF v, of ?g] unfolding vm etiqueta_mes_ord[OF assms(5,6)] .
  have c3: "\<forall>p. producto ?v = Some p \<longrightarrow> (\<exists>x. (p, Val x) \<in> set (ingresos_por_producto m))"
    unfolding ipp using entrada_producto[OF v] by blast
  have c4: "(\<forall>kv\<in>set (ventas_mensuales m).
             snd kv =
               Val (\<Sum>v\<leftarrow>filter (\<lambda>v. etiqueta (mes_ord (fecha v)) = fst kv \<and> precio v \<noteq> NaN)
                          (filas d). of_int (cantidad v) * valor (precio v))) \<and>
          (\<forall>kv\<in>set (ingresos_por_producto m).
             snd kv =
               Val (\<Sum>v\<leftarrow>filter (\<lambda>v. producto v = Some (fst kv) \<and> precio v \<noteq> NaN)
                          (filas d). of_int (cantidad v) * valor (precio v)))"
    if ent0: "\<forall>v\<in>set (filas d). of_int \<lfloor>valor (precio v)\<rfloor> = valor (precio v)"
    and cota: "(\<Sum>w\<leftarrow>filas d. \<bar>of_int (cantidad w) * valor (precio w)\<bar>) \<le> 2 ^ 53"
  proof -
    note ent = precio_entero_Ints[OF ent0]
    have skip: "(\<Sum>v\<leftarrow>filter P (filas d). of_int (cantidad v) * valor (precio v)) =
        (\<Sum>v\<leftarrow>filter (\<lambda>v. P v \<and> precio v \<noteq> NaN) (filas d).
            of_int (cantidad v) * valor (precio v))" for P
      by (rule sum_list_filter_zero) simp
    have s: "suma_f64 (map ?g (filter P (filas d))) =
        Val (\<Sum>v\<leftarrow>filter (\<lambda>v. P v \<and> precio v \<noteq> NaN) (filas d).
            of_int (cantidad v) * valor (precio v))" for P
      by (simp only: suma_ingresos_enteros[OF ent cota] skip[symmetric])
    show ?thesis
    proof (intro conjI ballI)
      fix kv assume "kv \<in> set (ventas_mensuales m)"
      then have "snd kv =
          suma_f64 (map ?g (filter (\<lambda>v. etiqueta (mes_ord (fecha v)) = fst kv) (filas d)))"
        unfolding vm by (rule resample_entry)
      then show "snd kv =
               Val (\<Sum>v\<leftarrow>filter (\<lambda>v. etiqueta (mes_ord (fecha v)) = fst kv \<and> precio v \<noteq> NaN)
                          (filas d). of_int (cantidad v) * valor (precio v))"
        by (simp only: s)
    next
      fix kv assume "kv \<in> set (ingresos_por_producto m)"
      then have "snd kv = suma_f64 (map ?g (filter (\<lambda>v. producto v = Some (fst kv)) (filas d)))"
        unfolding ipp by (rule groupby_f64_entry)
      then show "snd kv =
               Val (\<Sum>v\<leftarrow>filter (\<lambda>v. producto v = Some (fst kv) \<and> precio v \<noteq> NaN)
                          (filas d). of_int (cantidad v) * valor (precio v))"
        by (simp only: s)
    qed
  qed
  from c1 c2 c3 c4 show ?thesis by blast
qed

theorem sumas_sin_NaN_witness:
  "(\<exists>d' ing. objetos (fst (calcular_metricas mem_nan 0)) (df metricas_nan) = Some d' \<and>
      ingreso d' = Some ing \<and> ing ! 0 = NaN) \<and>
   (\<exists>x. ((2024, 1), Val x) \<in> set (ventas_mensuales metricas_nan)) \<and>
   (\<exists>x. (''A'', Val x) \<in> set (ingresos_por_producto metricas_nan))"
  using sumas_sin_NaN[OF mem_nan_0 mem_nan_metricas fila_nan cota_nan]
  unfolding fila_nan_campos by blast

end
